theory Spec2Isabelle
  imports Complex_Main
begin

section \<open>Python values and errors\<close>

text \<open>
  The exceptions that the modelled functions of \<^verbatim>\<open>SynthSeg/supervised_training.py\<close> can
  raise. An assertion error carries the message template of the \<^verbatim>\<open>assert\<close> statement and
  the integers that \<^verbatim>\<open>str.format\<close> fills in; a name error carries the unbound name.
\<close>

datatype error =
    NameError string
  | AssertionError string "int list"
  | IndexError
  | ValueError string
  | TypeError string
  | IOError string

section \<open>Shape resolution: \<^verbatim>\<open>get_shapes\<close>\<close>

text \<open>
  Modelled from the spec: \<^verbatim>\<open>utils.reformat_to_list\<close> (\<^verbatim>\<open>ext/lab2im/utils.py\<close>) is not
  among the sources. The spec's data model gives a spatial shape as a tuple of integers;
  a shape is taken here as the list of its entries, which the helper leaves as it is
  (its \<^verbatim>\<open>length\<close> and \<^verbatim>\<open>dtype\<close> arguments are not modelled).
\<close>

definition reformat_to_list :: "int list \<Rightarrow> int list" where
  "reformat_to_list var = var"

text \<open>
  Modelled from the spec: \<^verbatim>\<open>utils.find_closest_number_divisible_by_m\<close>
  (\<^verbatim>\<open>ext/lab2im/utils.py\<close>) is not among the sources. The source always calls it with
  \<^verbatim>\<open>smaller_ans=True\<close>, for which the spec says: round down to the nearest multiple of
  \<^verbatim>\<open>output_div_by_n\<close>. The spec speaks of a positive divisor only.
\<close>

definition find_closest_number_divisible_by_m :: "int \<Rightarrow> int \<Rightarrow> int" where
  "find_closest_number_divisible_by_m n m = (n div m) * m"

text \<open>
  The line printed by \<^verbatim>\<open>get_shapes\<close>:
  \<^verbatim>\<open>'crop_shape {0} not divisible by {1}, changed to {2}'\<close>, with its three arguments.
\<close>

datatype message = CropShapeNotDivisible "int list" int "int list"

text \<open>
  Line 277: \<^verbatim>\<open>[min(im_shape[i], crop_shape[i]) for i in range(n_dims)]\<close>. Reading
  \<^verbatim>\<open>crop_shape[i]\<close> past the end of a shorter list raises \<^verbatim>\<open>IndexError\<close>; entries
  of a longer list beyond \<^verbatim>\<open>n_dims\<close> are never read.
\<close>

definition clamp_crop_shape :: "int list \<Rightarrow> int list \<Rightarrow> error + int list" where
  "clamp_crop_shape im_shape crop_shape =
     (let n_dims = length im_shape
      in if length crop_shape < n_dims then Inl IndexError
         else Inr (map (\<lambda>i. min (im_shape ! i) (crop_shape ! i)) [0..<n_dims]))"

text \<open>
  \<^verbatim>\<open>get_shapes(im_shape, crop_shape, output_div_by_n)\<close>, lines 266 to 300. The result is
  the returned shape together with the lines printed on the way.
\<close>

definition get_shapes ::
  "int list \<Rightarrow> int list option \<Rightarrow> int option \<Rightarrow> error + (int list \<times> message list)" where
  "get_shapes im_shape crop_shape output_div_by_n =
     (let im_shape = reformat_to_list im_shape
      in case crop_shape of
           Some crop_shape \<Rightarrow>
             (case clamp_crop_shape im_shape (reformat_to_list crop_shape) of
                Inl e \<Rightarrow> Inl e
              | Inr crop_shape \<Rightarrow>
                  (case output_div_by_n of
                     Some n \<Rightarrow>
                       (let tmp_shape =
                              map (\<lambda>s. find_closest_number_divisible_by_m s n) crop_shape
                        in if crop_shape \<noteq> tmp_shape
                           then Inr (tmp_shape, [CropShapeNotDivisible crop_shape n tmp_shape])
                           else Inr (crop_shape, []))
                   | None \<Rightarrow> Inr (crop_shape, [])))
         | None \<Rightarrow>
             (case output_div_by_n of
                Some n \<Rightarrow>
                  Inr (map (\<lambda>s. find_closest_number_divisible_by_m s n) im_shape, [])
              | None \<Rightarrow> Inr (im_shape, [])))"

section \<open>Arrays and storage\<close>

text \<open>
  A numpy array: its shape and its entries in row-major order.
\<close>

datatype 'a ndarray = NDArray (shape: "nat list") (flat: "'a list")

text \<open>
  The files the program reads and writes. \<^verbatim>\<open>utils.list_images_in_folder\<close>,
  \<^verbatim>\<open>utils.get_list_labels\<close>, \<^verbatim>\<open>utils.mkdir\<close>, \<^verbatim>\<open>utils.get_volume_info\<close> and
  \<^verbatim>\<open>utils.load_volume\<close> (\<^verbatim>\<open>ext/lab2im/utils.py\<close>) work on the file system; what they
  return is a parameter of the model. Of the six values that \<^verbatim>\<open>get_volume_info\<close>
  returns, the three that the program uses are kept. \<^verbatim>\<open>load_volume_int\<close> stands for
  \<^verbatim>\<open>load_volume\<close> called with \<^verbatim>\<open>dtype='int'\<close>. \<^verbatim>\<open>get_list_labels\<close> takes the
  label list, if one is given, and the folder of the label maps, and returns the label
  list and the number of neutral labels.
\<close>

record volume_info =
  info_shape :: "int list"
  info_n_dims :: nat
  info_n_channels :: nat

record storage =
  list_images_in_folder :: "string \<Rightarrow> error + string list"
  get_list_labels :: "int list option \<Rightarrow> string \<Rightarrow> error + (int list \<times> int)"
  mkdir :: "string \<Rightarrow> error + unit"
  get_volume_info :: "string \<Rightarrow> error + volume_info"
  load_volume :: "string \<Rightarrow> error + real ndarray"
  load_volume_int :: "string \<Rightarrow> error + int ndarray"

text \<open>
  Python's \<^verbatim>\<open>xs[i]\<close> for an index that is not negative.
\<close>

definition getitem :: "'a list \<Rightarrow> nat \<Rightarrow> error + 'a" where
  "getitem xs i = (if i < length xs then Inr (xs ! i) else Inl IndexError)"

definition bind_err :: "error + 'a \<Rightarrow> ('a \<Rightarrow> error + 'b) \<Rightarrow> error + 'b" where
  "bind_err m f = (case m of Inl e \<Rightarrow> Inl e | Inr x \<Rightarrow> f x)"

text \<open>
  Modelled from the spec: \<^verbatim>\<open>utils.add_axis\<close> (\<^verbatim>\<open>ext/lab2im/utils.py\<close>) is not among
  the sources. The spec's batch has a leading sample-count dimension, and a single-channel
  image gets a channel axis of size 1 appended: each entry of \<^verbatim>\<open>axis\<close> inserts an axis
  of size 1 at that position, 0 in front and -1 at the end, one entry after the other.
\<close>

definition expand_dims :: "'a ndarray \<Rightarrow> int \<Rightarrow> error + 'a ndarray" where
  "expand_dims x axis =
     (let n = int (length (shape x));
          p = (if axis < 0 then n + 1 + axis else axis)
      in if 0 \<le> p \<and> p \<le> n
         then Inr (NDArray (take (nat p) (shape x) @ [1] @ drop (nat p) (shape x)) (flat x))
         else Inl (ValueError ''axis is out of bounds''))"

fun add_axis :: "'a ndarray \<Rightarrow> int list \<Rightarrow> error + 'a ndarray" where
  "add_axis x [] = Inr x"
| "add_axis x (ax # axes) = bind_err (expand_dims x ax) (\<lambda>y. add_axis y axes)"

text \<open>
  \<^verbatim>\<open>np.concatenate(arrays, 0)\<close>: the arrays are joined along their first axis. The
  first array must have an axis, the others must have as many axes as the first, and all
  must agree on every axis but the first.
\<close>

definition concatenate0 :: "'a ndarray list \<Rightarrow> error + 'a ndarray" where
  "concatenate0 xs =
     (case xs of
        [] \<Rightarrow> Inl (ValueError ''need at least one array to concatenate'')
      | x # rest \<Rightarrow>
          if shape x = []
          then Inl (ValueError ''zero-dimensional arrays cannot be concatenated'')
          else if list_ex (\<lambda>y. length (shape y) \<noteq> length (shape x)) rest
          then Inl (ValueError ''all the input arrays must have same number of dimensions'')
          else if list_ex (\<lambda>y. tl (shape y) \<noteq> tl (shape x)) rest
          then Inl (ValueError ''all the input array dimensions except for the concatenation axis must match exactly'')
          else Inr (NDArray (sum_list (map (\<lambda>y. hd (shape y)) xs) # tl (shape x))
                            (concat (map flat xs))))"

section \<open>The sample generator: \<^verbatim>\<open>build_model_inputs\<close>\<close>

text \<open>
  \<^verbatim>\<open>npr.randint(high, size=size)\<close>. The generator of random numbers is a sequence
  \<open>rng\<close> of naturals and a position in it; a draw reads as many numbers as asked for from the
  position on and reduces each below \<open>high\<close>.
\<close>

definition randint :: "(nat \<Rightarrow> nat) \<Rightarrow> nat \<Rightarrow> nat \<Rightarrow> int \<Rightarrow> error + (nat list \<times> nat)" where
  "randint rng pos high n =
     (if high = 0 then Inl (ValueError ''high <= 0'')
      else if n < 0 then Inl (ValueError ''negative dimensions are not allowed'')
      else Inr (map (\<lambda>k. rng (pos + k) mod high) [0..<nat n], pos + nat n))"

text \<open>
  Line 231, run when the generator is started: the number of channels of the first image.
\<close>

definition build_model_inputs_start :: "storage \<Rightarrow> string list \<Rightarrow> error + nat" where
  "build_model_inputs_start st path_images =
     bind_err (getitem path_images 0) (\<lambda>p.
     bind_err (get_volume_info st p) (\<lambda>info.
     Inr (info_n_channels info)))"

text \<open>
  The body of \<^verbatim>\<open>for idx in indices\<close>, lines 243 to 254, for one index: the image and the
  label map with their added axes.
\<close>

definition load_sample ::
  "storage \<Rightarrow> string list \<Rightarrow> string list \<Rightarrow> nat \<Rightarrow> nat \<Rightarrow> error + (real ndarray \<times> int ndarray)" where
  "load_sample st path_images path_label_maps n_channels idx =
     bind_err (getitem path_images idx) (\<lambda>p_image.
     bind_err (load_volume st p_image) (\<lambda>image.
     bind_err (if n_channels > 1 then add_axis image [0] else add_axis image [0, -1]) (\<lambda>image.
     bind_err (getitem path_label_maps idx) (\<lambda>p_labels.
     bind_err (load_volume_int st p_labels) (\<lambda>labels.
     bind_err (add_axis labels [0, -1]) (\<lambda>labels.
     Inr (image, labels)))))))"

fun load_samples ::
  "storage \<Rightarrow> string list \<Rightarrow> string list \<Rightarrow> nat \<Rightarrow> nat list
     \<Rightarrow> error + (real ndarray list \<times> int ndarray list)" where
  "load_samples st path_images path_label_maps n_channels [] = Inr ([], [])"
| "load_samples st path_images path_label_maps n_channels (idx # indices) =
     bind_err (load_sample st path_images path_label_maps n_channels idx) (\<lambda>(image, labels).
     bind_err (load_samples st path_images path_label_maps n_channels indices)
       (\<lambda>(list_images, list_label_maps).
     Inr (image # list_images, labels # list_label_maps)))"

text \<open>
  One round of \<^verbatim>\<open>while True\<close>, lines 236 to 263: from the position of the random
  generator to what is yielded, the pair of the image input and the label input, and the
  new position. The next round starts from there, without end.
\<close>

definition build_model_inputs_next ::
  "storage \<Rightarrow> (nat \<Rightarrow> nat) \<Rightarrow> string list \<Rightarrow> string list \<Rightarrow> int \<Rightarrow> nat \<Rightarrow> nat
     \<Rightarrow> error + ((real ndarray \<times> int ndarray) \<times> nat)" where
  "build_model_inputs_next st rng path_images path_label_maps batchsize n_channels pos =
     bind_err (randint rng pos (length path_label_maps) batchsize) (\<lambda>(indices, pos').
     bind_err (load_samples st path_images path_label_maps n_channels indices)
       (\<lambda>(list_images, list_label_maps).
     if batchsize > 1
     then bind_err (concatenate0 list_images) (\<lambda>images.
          bind_err (concatenate0 list_label_maps) (\<lambda>label_maps.
          Inr ((images, label_maps), pos')))
     else bind_err (getitem list_images 0) (\<lambda>images.
          bind_err (getitem list_label_maps 0) (\<lambda>label_maps.
          Inr ((images, label_maps), pos')))))"

section \<open>The label lookup table\<close>

text \<open>
  Modelled from the spec: \<^verbatim>\<open>utils.rearrange_label_list\<close> (\<^verbatim>\<open>ext/lab2im/utils.py\<close>) and
  \<^verbatim>\<open>edit_tensors.convert_labels\<close> (\<^verbatim>\<open>ext/lab2im/edit_tensors.py\<close>) are not among the
  sources; the source has their calls only (lines 167, 174 and 216). The spec (4.1) has the
  label list put into a canonical order, numerically ascending with the zero label, if
  present, first; the lookup table is the bijection between the original ids and the dense
  indices 0..N-1 in that order. A table is kept as the list of ids in canonical order: the
  forward direction finds the position of an id, the inverse direction reads the id at a
  position. The spec asks for a list that is not empty and rejects duplicates.
\<close>

definition canonical_order :: "int list \<Rightarrow> int list" where
  "canonical_order label_list =
     (if 0 \<in> set label_list then [0] else []) @ sort (filter (\<lambda>l. l \<noteq> 0) label_list)"

fun index_of :: "int \<Rightarrow> int list \<Rightarrow> nat option" where
  "index_of l [] = None"
| "index_of l (x # xs) = (if x = l then Some 0 else map_option Suc (index_of l xs))"

definition forward_lookup :: "int list \<Rightarrow> int \<Rightarrow> int option" where
  "forward_lookup lut l = map_option int (index_of l lut)"

definition inverse_lookup :: "int list \<Rightarrow> int \<Rightarrow> int option" where
  "inverse_lookup lut i = (if 0 \<le> i \<and> nat i < length lut then Some (lut ! nat i) else None)"

definition rearrange_label_list :: "int list \<Rightarrow> error + (int list \<times> int list)" where
  "rearrange_label_list label_list =
     (if label_list = [] then Inl (ValueError ''the label list is empty'')
      else if \<not> distinct label_list then Inl (ValueError ''the label list has duplicates'')
      else Inr (map int [0..<length label_list], canonical_order label_list))"

text \<open>
  The second argument of \<^verbatim>\<open>convert_labels\<close>: the lookup table at line 174, the
  caller's label list at line 216.
\<close>

datatype table = Lut "int list" | Labels "int list"

text \<open>
  Modelled from the spec, stages 1 and 7 of the pipeline, on a label volume given by its
  voxels. With the lookup table, every voxel is sent forward to its dense index; the spec
  gives no value for an id that the table does not have, and the result is then
  \<open>None\<close>. With the label list, every voxel is sent back through the inverse of the
  table of that list, and a value that is no label of the list becomes zero.
\<close>

fun convert_labels :: "int list \<Rightarrow> table \<Rightarrow> int list option" where
  "convert_labels label_map (Lut lut) = those (map (forward_lookup lut) label_map)"
| "convert_labels label_map (Labels labels_list) =
     Some (map (\<lambda>i. case inverse_lookup (canonical_order labels_list) i of
                       Some l \<Rightarrow> if l \<in> set labels_list then l else 0
                     | None \<Rightarrow> 0) label_map)"

section \<open>The augmentation model: \<^verbatim>\<open>build_augmentation_model\<close>\<close>

text \<open>
  The Python values that the augmentation parameters take: \<^verbatim>\<open>None\<close>, a boolean, an
  integer, a float (a real number here: only its sign and whether it is zero are looked
  at), or a list of numbers.
\<close>

datatype pyval = PyNone | PyBool bool | PyInt int | PyFloat real | PyList "real list"

text \<open>
  \<^verbatim>\<open>x is not False\<close> compares identities: only the boolean \<^verbatim>\<open>False\<close> itself is
  \<^verbatim>\<open>False\<close>; the integer 0 and \<^verbatim>\<open>None\<close> are other objects.
\<close>

definition is_not_False :: "pyval \<Rightarrow> bool" where
  "is_not_False x = (x \<noteq> PyBool False)"

text \<open>The truth value that \<^verbatim>\<open>if x:\<close> tests.\<close>

fun truthy :: "pyval \<Rightarrow> bool" where
  "truthy PyNone = False"
| "truthy (PyBool b) = b"
| "truthy (PyInt i) = (i \<noteq> 0)"
| "truthy (PyFloat r) = (r \<noteq> 0)"
| "truthy (PyList xs) = (xs \<noteq> [])"

text \<open>
  \<^verbatim>\<open>x > 0\<close>: a boolean counts as 0 or 1; \<^verbatim>\<open>None\<close> and a list cannot be compared
  with an integer.
\<close>

fun greater_than_zero :: "pyval \<Rightarrow> error + bool" where
  "greater_than_zero PyNone =
     Inl (TypeError ''> not supported between instances of NoneType and int'')"
| "greater_than_zero (PyBool b) = Inr b"
| "greater_than_zero (PyInt i) = Inr (i > 0)"
| "greater_than_zero (PyFloat r) = Inr (r > 0)"
| "greater_than_zero (PyList xs) =
     Inl (TypeError ''> not supported between instances of list and int'')"

text \<open>
  The names bound in the module when one of its functions runs: what lines 1 to 21
  import and what the four \<^verbatim>\<open>def\<close> statements define. A name that a function body
  reads and that is neither local nor bound here (nor a builtin) raises \<^verbatim>\<open>NameError\<close>.
\<close>

datatype pyobject = Module string | Function string

definition module_globals :: "(string \<times> pyobject) list" where
  "module_globals =
     [(''os'', Module ''os''),
      (''np'', Module ''numpy''),
      (''tf'', Module ''tensorflow''),
      (''KL'', Module ''keras.layers''),
      (''K'', Module ''keras.backend''),
      (''npr'', Module ''numpy.random''),
      (''Model'', Function ''keras.models.Model''),
      (''metrics_model'', Module ''SynthSeg.metrics_model''),
      (''train_model'', Function ''SynthSeg.training.train_model''),
      (''utils'', Module ''ext.lab2im.utils''),
      (''edit_volumes'', Module ''ext.lab2im.edit_volumes''),
      (''nrn_models'', Module ''ext.neuron.models''),
      (''nrn_layers'', Module ''ext.neuron.layers''),
      (''l2i_et'', Module ''ext.lab2im.edit_tensors''),
      (''l2i_sa'', Module ''ext.lab2im.spatial_augmentation''),
      (''l2i_ia'', Module ''ext.lab2im.intensity_augmentation''),
      (''supervised_training'', Function ''supervised_training''),
      (''build_augmentation_model'', Function ''build_augmentation_model''),
      (''build_model_inputs'', Function ''build_model_inputs''),
      (''get_shapes'', Function ''get_shapes'')]"

definition lookup_global :: "string \<Rightarrow> error + pyobject" where
  "lookup_global name =
     (case map_of module_globals name of
        Some obj \<Rightarrow> Inr obj
      | None \<Rightarrow> Inl (NameError name))"

text \<open>
  The nodes of the Keras graph that the function builds: an input layer with its name and
  shape (without the batch axis), \<^verbatim>\<open>convert_labels\<close> with its table, one output of a
  layer taken from an object (the layer's name, its inputs, the number of the output; the
  constructor's arguments are not kept), a \<^verbatim>\<open>Lambda\<close> layer that casts, and the
  \<^verbatim>\<open>Lambda\<close> layer that returns the first of its inputs.
\<close>

datatype dtype = Float32 | Int32

datatype tensor =
    Input string "int list"
  | ConvertLabels tensor table
  | LayerOutput pyobject string "tensor list" nat
  | Cast tensor dtype string
  | FirstOf "tensor list" string

record model =
  model_inputs :: pyobject
  model_outputs :: "tensor list"

text \<open>
  \<^verbatim>\<open>KL.Input(shape=..., name=...)\<close>, lines 170 and 171: Keras makes the input layer
  of that shape, and raises \<^verbatim>\<open>ValueError\<close> when an entry of the shape is negative.
\<close>

definition keras_input :: "string \<Rightarrow> int list \<Rightarrow> error + tensor" where
  "keras_input name shape_list =
     (if list_ex (\<lambda>d. d < 0) shape_list
      then Inl (ValueError ''a dimension of the shape is negative'')
      else Inr (Input name shape_list))"

text \<open>
  The parameters that \<^verbatim>\<open>supervised_training\<close> hands on to
  \<^verbatim>\<open>build_augmentation_model\<close> under the same names, and the parameters of
  \<^verbatim>\<open>build_augmentation_model\<close>.
\<close>

record augmentation_options =
  output_shape :: "int list option"
  flipping :: pyval
  scaling_bounds :: pyval
  rotation_bounds :: pyval
  shearing_bounds :: pyval
  translation_bounds :: pyval
  nonlin_std :: pyval
  nonlin_shape_factor :: pyval
  bias_field_std :: pyval
  bias_shape_factor :: pyval

record augmentation_params = augmentation_options +
  im_shape :: "int list"
  n_channels :: int
  segmentation_labels :: "int list"
  n_neutral_labels :: int
  output_div_by_n :: "int option"
  aff :: "real list list option"

text \<open>
  Lines 176 to 188, the deformation. The condition joins five identity tests with
  \<^verbatim>\<open>|\<close>, which evaluates all of them. In the branch, \<^verbatim>\<open>layers\<close> is the first name
  that is read.
\<close>

definition deformation_requested :: "('a augmentation_params_scheme) \<Rightarrow> bool" where
  "deformation_requested a =
     (is_not_False (scaling_bounds a) \<or> is_not_False (rotation_bounds a)
      \<or> is_not_False (shearing_bounds a) \<or> is_not_False (translation_bounds a)
      \<or> is_not_False (nonlin_std a))"

definition deformation_stage ::
  "augmentation_params \<Rightarrow> tensor \<Rightarrow> tensor \<Rightarrow> error + (tensor \<times> tensor)" where
  "deformation_stage a labels image_input =
     (if deformation_requested a
      then bind_err (lookup_global ''layers'') (\<lambda>layers.
             Inr (LayerOutput layers ''RandomSpatialDeformation'' [labels, image_input] 0,
                  LayerOutput layers ''RandomSpatialDeformation'' [labels, image_input] 1))
      else Inr (labels, image_input))"

text \<open>Lines 190 to 194, the crop.\<close>

definition crop_stage ::
  "int list \<Rightarrow> int list \<Rightarrow> tensor \<Rightarrow> tensor \<Rightarrow> error + (tensor \<times> tensor)" where
  "crop_stage crop_shape shape_list labels img =
     (if crop_shape \<noteq> shape_list
      then bind_err (lookup_global ''layers'') (\<lambda>layers.
             Inr (LayerOutput layers ''RandomCrop'' [labels, img] 0,
                  LayerOutput layers ''RandomCrop'' [labels, img] 1))
      else Inr (labels, img))"

text \<open>
  Lines 196 to 202, the flip. In the call of line 201, \<^verbatim>\<open>layers\<close> is read before the
  arguments are evaluated, \<^verbatim>\<open>get_ras_axes\<close> among them.
\<close>

definition flip_stage ::
  "augmentation_params \<Rightarrow> tensor \<Rightarrow> tensor \<Rightarrow> error + (tensor \<times> tensor)" where
  "flip_stage a labels img =
     (if truthy (flipping a)
      then if aff a = None
           then Inl (AssertionError ''aff should not be None if flipping is True'' [])
           else bind_err (lookup_global ''layers'') (\<lambda>layers.
                bind_err (lookup_global ''get_ras_axes'') (\<lambda>get_ras_axes.
                Inr (LayerOutput layers ''RandomFlip'' [labels, img] 0,
                     LayerOutput layers ''RandomFlip'' [labels, img] 1)))
      else Inr (labels, img))"

text \<open>Lines 204 to 208, the bias field.\<close>

definition bias_stage :: "augmentation_params \<Rightarrow> tensor \<Rightarrow> error + tensor" where
  "bias_stage a img =
     bind_err (greater_than_zero (bias_field_std a)) (\<lambda>positive.
     if positive
     then bind_err (lookup_global ''layers'') (\<lambda>layers.
            Inr (Cast (LayerOutput layers ''BiasFieldCorruption'' [img] 0)
                      Float32 ''image_biased''))
     else Inr img)"

text \<open>Lines 210 to 213, the intensity augmentation, under no condition.\<close>

definition intensity_stage :: "tensor \<Rightarrow> error + tensor" where
  "intensity_stage img =
     bind_err (lookup_global ''layers'') (\<lambda>layers.
       Inr (Cast (LayerOutput layers ''IntensityAugmentation'' [img] 0)
                 Float32 ''image_augmented''))"

text \<open>
  \<^verbatim>\<open>build_augmentation_model\<close>, lines 144 to 223. \<^verbatim>\<open>utils.get_dims\<close> is not among the
  sources; its first result is taken as the length of the shape, as line 270 has it. What
  \<^verbatim>\<open>get_shapes\<close> prints is not kept here. The local \<^verbatim>\<open>im_shape\<close> after line 162 is
  \<open>shape_list\<close>, the local \<^verbatim>\<open>image\<close> is \<open>img\<close>.
\<close>

definition build_augmentation_model :: "augmentation_params \<Rightarrow> error + model" where
  "build_augmentation_model a =
     (let shape_list = reformat_to_list (im_shape a);
          n_dims = length shape_list
      in bind_err (get_shapes shape_list (output_shape a) (output_div_by_n a))
           (\<lambda>(crop_shape, printed).
         bind_err (rearrange_label_list (segmentation_labels a)) (\<lambda>(new_seg_labels, lut).
         bind_err (keras_input ''image_input'' (shape_list @ [n_channels a])) (\<lambda>image_input.
         bind_err (keras_input ''labels_input'' (shape_list @ [1])) (\<lambda>labels_input.
         let labels = ConvertLabels labels_input (Lut lut)
         in bind_err (deformation_stage a labels image_input) (\<lambda>(labels, img).
            bind_err (crop_stage crop_shape shape_list labels img) (\<lambda>(labels, img).
            bind_err (flip_stage a labels img) (\<lambda>(labels, img).
            bind_err (bias_stage a img) (\<lambda>img.
            bind_err (intensity_stage img) (\<lambda>img.
            let labels_back = ConvertLabels labels (Labels (segmentation_labels a));
                labels_out = Cast labels_back Int32 ''labels_out'';
                image_out = FirstOf [img, labels_out] ''image_out''
            in bind_err (lookup_global ''list_inputs'') (\<lambda>list_inputs.
               Inr \<lparr> model_inputs = list_inputs,
                     model_outputs = [image_out, labels_out] \<rparr>)))))))))))"

section \<open>The entry point: \<^verbatim>\<open>supervised_training\<close>\<close>

text \<open>
  What the function does to the outside, in the order in which it does it: listing a
  folder, collecting the label list, making a folder, reading the header of a volume,
  building the networks, loading weights, and training. The samples are drawn and the
  batches are made inside \<^verbatim>\<open>train_model\<close>, which pulls them from the generator; the
  call of \<^verbatim>\<open>build_model_inputs\<close> at line 96 only creates the generator and runs none
  of its body.
\<close>

datatype event =
    ListImagesInFolder string
  | GetListLabels string
  | Mkdir string
  | GetVolumeInfo string
  | BuildTrainingGenerator
  | BuildUnet
  | LoadWeights string
  | LoadLastWl2Weights string int
  | TrainModel string int

definition then_io ::
  "(error + 'a) \<times> event list \<Rightarrow> ('a \<Rightarrow> (error + 'b) \<times> event list)
     \<Rightarrow> (error + 'b) \<times> event list" where
  "then_io m f =
     (case m of
        (Inl e, tr) \<Rightarrow> (Inl e, tr)
      | (Inr x, tr) \<Rightarrow> (case f x of (r, tr') \<Rightarrow> (r, tr @ tr')))"

definition call :: "event \<Rightarrow> error + 'a \<Rightarrow> (error + 'a) \<times> event list" where
  "call ev r = (r, [ev])"

definition no_io :: "error + 'a \<Rightarrow> (error + 'a) \<times> event list" where
  "no_io r = (r, [])"

text \<open>
  The parameters of \<^verbatim>\<open>supervised_training\<close>. Those of the network and of the
  optimiser (lines 39 to 47, 50, 52 and 53) are only handed to \<^verbatim>\<open>nrn_models.unet\<close> and
  \<^verbatim>\<open>train_model\<close> and are left out, except \<^verbatim>\<open>n_levels\<close>, a natural number here.
\<close>

record training_params = augmentation_options +
  image_dir :: string
  labels_dir :: string
  model_dir :: string
  path_segmentation_labels :: "int list option"
  batchsize :: int
  n_levels :: nat
  wl2_epochs :: int
  dice_epochs :: int
  load_model_file :: "string option"

definition path_join :: "string \<Rightarrow> string \<Rightarrow> string" where
  "path_join dir name = dir @ ''/'' @ name"

definition eye4 :: "real list list" where
  "eye4 = [[1, 0, 0, 0], [0, 1, 0, 0], [0, 0, 1, 0], [0, 0, 0, 1]]"

text \<open>
  Lines 114 to 141: the two training phases, once the networks are built. The calls into
  Keras and \<^verbatim>\<open>train_model\<close> are events only.
\<close>

definition training_phases :: "training_params \<Rightarrow> (error + unit) \<times> event list" where
  "training_phases p =
     then_io
       (if wl2_epochs p > 0
        then then_io
               (case load_model_file p of
                  Some file \<Rightarrow> call (LoadWeights file) (Inr ())
                | None \<Rightarrow> no_io (Inr ()))
               (\<lambda>_. call (TrainModel ''wl2'' (wl2_epochs p)) (Inr ()))
        else no_io (Inr ()))
       (\<lambda>_. if dice_epochs p > 0
            then then_io
                   (if wl2_epochs p > 0
                    then call (LoadLastWl2Weights (model_dir p) (wl2_epochs p)) (Inr ())
                    else case load_model_file p of
                           Some file \<Rightarrow> call (LoadWeights file) (Inr ())
                         | None \<Rightarrow> no_io (Inr ()))
                   (\<lambda>_. call (TrainModel ''dice'' (dice_epochs p)) (Inr ()))
            else no_io (Inr ()))"

text \<open>
  \<^verbatim>\<open>supervised_training\<close>, lines 24 to 141: the result, and the events up to it.
\<close>

definition supervised_training ::
  "storage \<Rightarrow> training_params \<Rightarrow> (error + unit) \<times> event list" where
  "supervised_training st p =
     (if \<not> (wl2_epochs p > 0 \<or> dice_epochs p > 0)
      then (Inl (AssertionError
                  ''either wl2_epochs or dice_epochs must be positive, had {0} and {1}''
                  [wl2_epochs p, dice_epochs p]), [])
      else
        then_io (call (ListImagesInFolder (image_dir p))
                   (list_images_in_folder st (image_dir p))) (\<lambda>path_images.
        then_io (call (ListImagesInFolder (labels_dir p))
                   (list_images_in_folder st (labels_dir p))) (\<lambda>path_labels.
        if length path_images \<noteq> length path_labels
        then (Inl (AssertionError ''There should be as many images as label maps.'' []), [])
        else
          then_io (call (GetListLabels (labels_dir p))
                     (get_list_labels st (path_segmentation_labels p) (labels_dir p)))
            (\<lambda>(label_list, n_neutral).
          then_io (call (Mkdir (model_dir p)) (mkdir st (model_dir p))) (\<lambda>_.
          let log_dir = path_join (model_dir p) ''logs''
          in then_io (call (Mkdir log_dir) (mkdir st log_dir)) (\<lambda>_.
             then_io (no_io (getitem path_images 0)) (\<lambda>first_image.
             then_io (call (GetVolumeInfo first_image) (get_volume_info st first_image))
               (\<lambda>info.
             then_io (no_io (build_augmentation_model
                       \<lparr> output_shape = output_shape p,
                         flipping = flipping p,
                         scaling_bounds = scaling_bounds p,
                         rotation_bounds = rotation_bounds p,
                         shearing_bounds = shearing_bounds p,
                         translation_bounds = translation_bounds p,
                         nonlin_std = nonlin_std p,
                         nonlin_shape_factor = nonlin_shape_factor p,
                         bias_field_std = bias_field_std p,
                         bias_shape_factor = bias_shape_factor p,
                         im_shape = info_shape info,
                         n_channels = int (info_n_channels info),
                         segmentation_labels = label_list,
                         n_neutral_labels = n_neutral,
                         output_div_by_n = Some (2 ^ n_levels p),
                         aff = Some eye4 \<rparr>)) (\<lambda>augmentation_model.
             then_io (call BuildTrainingGenerator (Inr ())) (\<lambda>_.
             then_io (call BuildUnet (Inr ())) (\<lambda>_.
             training_phases p)))))))))))"

section \<open>Example inputs\<close>

text \<open>
  A storage with two images and two label maps of shape (2, 2), and the parameters of a
  call with the default values of \<^verbatim>\<open>supervised_training\<close>.
\<close>

definition example_storage :: storage where
  "example_storage =
     \<lparr> list_images_in_folder =
         (\<lambda>dir. if dir = ''images'' then Inr [''images/a.nii'', ''images/b.nii'']
                else if dir = ''labels'' then Inr [''labels/a.nii'', ''labels/b.nii'']
                else if dir = ''one_label'' then Inr [''one_label/a.nii'']
                else Inl (IOError dir)),
       get_list_labels = (\<lambda>given dir. Inr ([0, 2, 3], 1)),
       mkdir = (\<lambda>dir. Inr ()),
       get_volume_info =
         (\<lambda>path. Inr \<lparr> info_shape = [2, 2], info_n_dims = 2, info_n_channels = 1 \<rparr>),
       load_volume = (\<lambda>path. Inr (NDArray [2, 2] [1, 2, 3, 4])),
       load_volume_int = (\<lambda>path. Inr (NDArray [2, 2] [0, 0, 2, 3])) \<rparr>"

definition example_training_params :: training_params where
  "example_training_params =
     \<lparr> output_shape = None,
       flipping = PyBool True,
       scaling_bounds = PyFloat 0.015,
       rotation_bounds = PyInt 15,
       shearing_bounds = PyFloat 0.012,
       translation_bounds = PyBool False,
       nonlin_std = PyFloat 3,
       nonlin_shape_factor = PyFloat 0.04,
       bias_field_std = PyFloat 0.3,
       bias_shape_factor = PyFloat 0.025,
       image_dir = ''images'',
       labels_dir = ''labels'',
       model_dir = ''models'',
       path_segmentation_labels = None,
       batchsize = 1,
       n_levels = 5,
       wl2_epochs = 5,
       dice_epochs = 100,
       load_model_file = None \<rparr>"

text \<open>
  A call of \<^verbatim>\<open>build_augmentation_model\<close> with its default values on a volume of shape
  (100, 100, 100) with one channel, labels 0, 2 and 3, divisor 32 and the identity as
  affine matrix.
\<close>

definition example_augmentation_params :: augmentation_params where
  "example_augmentation_params =
     \<lparr> output_shape = None,
       flipping = PyBool True,
       scaling_bounds = PyFloat 0.15,
       rotation_bounds = PyInt 15,
       shearing_bounds = PyFloat 0.012,
       translation_bounds = PyBool False,
       nonlin_std = PyFloat 3,
       nonlin_shape_factor = PyFloat 0.0625,
       bias_field_std = PyFloat 0.3,
       bias_shape_factor = PyFloat 0.025,
       im_shape = [100, 100, 100],
       n_channels = 1,
       segmentation_labels = [0, 2, 3],
       n_neutral_labels = 1,
       output_div_by_n = Some 32,
       aff = Some eye4 \<rparr>"

section \<open>Properties of the shape resolution\<close>

subsection \<open>Rounding down to a multiple\<close>


lemma fc_le: "0 < m \<Longrightarrow> find_closest_number_divisible_by_m n m \<le> n"
  unfolding find_closest_number_divisible_by_m_def
  using div_mult_mod_eq[of n m] pos_mod_sign[of m n] by linarith


lemma clamp_ok:
  assumes "length c = length im"
  shows "clamp_crop_shape im c = Inr (map2 min im c)"
proof -
  have "map (\<lambda>i. min (im ! i) (c ! i)) [0..<length im] = map2 min im c"
    using assms by (intro nth_equalityI) simp_all
  then show ?thesis using assms by (simp add: clamp_crop_shape_def)
qed






subsection \<open>Clamping before rounding\<close>

lemma get_shapes_Some_None:
  assumes "length c = length native_shape"
  shows "get_shapes native_shape (Some c) None = Inr (map2 min native_shape c, [])"
  using assms by (simp add: get_shapes_def reformat_to_list_def clamp_ok)

lemma get_shapes_Some_Some_eq:
  assumes "length c = length native_shape"
  shows "get_shapes native_shape (Some c) (Some n) =
           (let clamped = map2 min native_shape c;
                tmp_shape = map (\<lambda>s. find_closest_number_divisible_by_m s n) clamped
            in Inr (tmp_shape,
                    if clamped \<noteq> tmp_shape then [CropShapeNotDivisible clamped n tmp_shape]
                    else []))"
  using assms by (simp add: get_shapes_def reformat_to_list_def Let_def clamp_ok)

text \<open>
  Claim C2. For a requested crop shape of the same dimensionality as the native shape,
  \<^verbatim>\<open>get_shapes\<close> first takes the elementwise minimum of the native and the requested
  shape, and only then rounds (when a divisor is given, taken positive); the resolved shape
  exceeds the native shape on no axis. The scenario of the spec, (120, 80, 80) requested on
  (100, 100, 100), is clamped to (100, 80, 80) in the witness below.
\<close>

theorem get_shapes_clamps_first:
  assumes "length c = length native_shape" and "\<forall>n. div_by_n = Some n \<longrightarrow> 0 < n"
  shows "clamp_crop_shape native_shape c = Inr (map2 min native_shape c)
         \<and> (\<exists>r msgs. get_shapes native_shape (Some c) div_by_n = Inr (r, msgs)
               \<and> r = (case div_by_n of
                         None \<Rightarrow> map2 min native_shape c
                       | Some n \<Rightarrow> map (\<lambda>s. find_closest_number_divisible_by_m s n)
                                     (map2 min native_shape c))
               \<and> length r = length native_shape
               \<and> (\<forall>i < length native_shape. r ! i \<le> native_shape ! i))"
proof (cases div_by_n)
  case None
  show ?thesis
    unfolding None get_shapes_Some_None[OF assms(1)] clamp_ok[OF assms(1)]
    using assms(1) by simp
next
  case (Some n)
  with assms(2) have pos: "0 < n" by simp
  have "\<forall>i < length native_shape.
          find_closest_number_divisible_by_m (min (native_shape ! i) (c ! i)) n \<le> native_shape ! i"
  proof (intro allI impI)
    fix i
    have "find_closest_number_divisible_by_m (min (native_shape ! i) (c ! i)) n
            \<le> min (native_shape ! i) (c ! i)"
      using pos by (rule fc_le)
    then show "find_closest_number_divisible_by_m (min (native_shape ! i) (c ! i)) n \<le> native_shape ! i"
      by simp
  qed
  then show ?thesis
    unfolding Some get_shapes_Some_Some_eq[OF assms(1)] clamp_ok[OF assms(1)]
    using assms(1) by (simp add: Let_def)
qed

theorem get_shapes_clamps_first_witness:
  "clamp_crop_shape [100, 100, 100] [120, 80, 80] = Inr [100, 80, 80]
   \<and> get_shapes [100, 100, 100] (Some [120, 80, 80]) (Some 32)
       = Inr ([96, 64, 64], [CropShapeNotDivisible [100, 80, 80] 32 [96, 64, 64]])"
  using get_shapes_clamps_first[of "[120, 80, 80]" "[100, 100, 100]" "Some 32"]
  by (simp add: get_shapes_def reformat_to_list_def clamp_crop_shape_def
      find_closest_number_divisible_by_m_def upt_conv_Cons Let_def)

subsection \<open>What is printed\<close>

text \<open>
  Claim C7 says that every clamping and every rounding is announced. It is not: a request
  of (120, 64, 64) on a native (96, 96, 96) is clamped to (96, 64, 64) and nothing is
  printed; the same holds without a divisor; and the rounding of the native shape when no
  crop shape is given prints nothing either.
\<close>

theorem get_shapes_silent_counterexample:
  "get_shapes [96, 96, 96] (Some [120, 64, 64]) (Some 32) = Inr ([96, 64, 64], [])
   \<and> get_shapes [100, 100, 100] (Some [120, 80, 80]) None = Inr ([100, 80, 80], [])
   \<and> get_shapes [100, 100, 100] None (Some 32) = Inr ([96, 96, 96], [])"
  by (simp add: get_shapes_def reformat_to_list_def clamp_crop_shape_def
      find_closest_number_divisible_by_m_def upt_conv_Cons Let_def)

text \<open>
  Claim C7, amended. For shapes of matching dimensionality and a divisor that is absent or
  positive, \<^verbatim>\<open>get_shapes\<close> never fails, and it prints a line exactly when a crop shape
  is requested, a divisor is given, and rounding changes the clamped crop shape; the line
  then names the clamped shape, the divisor and the returned shape. Clamping alone, and
  rounding the native shape when no crop shape is requested, print nothing.
\<close>

theorem get_shapes_message_iff:
  assumes "\<forall>c. crop_shape = Some c \<longrightarrow> length c = length native_shape"
      and "\<forall>n. div_by_n = Some n \<longrightarrow> 0 < n"
  shows "\<exists>r msgs. get_shapes native_shape crop_shape div_by_n = Inr (r, msgs)
           \<and> (msgs \<noteq> [] \<longleftrightarrow>
                (\<exists>c n. crop_shape = Some c \<and> div_by_n = Some n
                   \<and> map2 min native_shape c
                       \<noteq> map (\<lambda>s. find_closest_number_divisible_by_m s n)
                            (map2 min native_shape c)))
           \<and> (\<forall>m \<in> set msgs. \<exists>c n. crop_shape = Some c \<and> div_by_n = Some n
                   \<and> m = CropShapeNotDivisible (map2 min native_shape c) n r)"
proof (cases crop_shape)
  case None
  then show ?thesis
    by (cases div_by_n) (simp_all add: get_shapes_def reformat_to_list_def)
next
  case (Some c)
  with assms(1) have len: "length c = length native_shape" by simp
  show ?thesis
  proof (cases div_by_n)
    case None
    show ?thesis unfolding Some None get_shapes_Some_None[OF len] by simp
  next
    case (Some n)
    show ?thesis unfolding \<open>crop_shape = Some c\<close> Some get_shapes_Some_Some_eq[OF len]
      by (simp add: Let_def)
  qed
qed

theorem get_shapes_message_iff_witness:
  "get_shapes [100, 100, 100] (Some [120, 80, 80]) (Some 32)
     = Inr ([96, 64, 64], [CropShapeNotDivisible [100, 80, 80] 32 [96, 64, 64]])
   \<and> map2 min [100, 100, 100] [120, 80, 80]
       \<noteq> map (\<lambda>s. find_closest_number_divisible_by_m s 32)
            (map2 min [100, 100, 100] [120, 80, 80])"
  using get_shapes_message_iff[of "Some [120, 80, 80]" "[100, 100, 100]" "Some 32"]
  by (simp add: get_shapes_def reformat_to_list_def clamp_crop_shape_def
      find_closest_number_divisible_by_m_def upt_conv_Cons Let_def)

section \<open>Properties of the sample generator\<close>

lemma bind_err_Inr [simp]: "bind_err (Inr x) f = f x"
  by (simp add: bind_err_def)

lemma bind_err_Inl [simp]: "bind_err (Inl e) f = Inl e"
  by (simp add: bind_err_def)

lemma add_axis_front: "add_axis x [0] = Inr (NDArray (1 # shape x) (flat x))"
  by (simp add: expand_dims_def)

lemma add_axis_front_back: "add_axis x [0, -1] = Inr (NDArray (1 # shape x @ [1]) (flat x))"
  by (simp add: expand_dims_def Let_def)

lemma randint_draw:
  assumes "0 < high" and "0 \<le> n"
  shows "\<exists>indices. randint rng pos high n = Inr (indices, pos + nat n)
           \<and> length indices = nat n \<and> (\<forall>i \<in> set indices. i < high)"
  using assms by (simp add: randint_def)

lemma load_sample_shapes:
  assumes "idx < length path_label_maps" and "length path_label_maps \<le> length path_images"
      and "\<forall>p \<in> set path_images. \<exists>a. load_volume st p = Inr a \<and> shape a = si"
      and "\<forall>p \<in> set path_label_maps. \<exists>a. load_volume_int st p = Inr a \<and> shape a = sl"
  shows "\<exists>image labels. load_sample st path_images path_label_maps channels idx = Inr (image, labels)
           \<and> shape image = 1 # (if channels > 1 then si else si @ [1])
           \<and> shape labels = 1 # sl @ [1]"
proof -
  have i1: "idx < length path_images" using assms(1,2) by simp
  from assms(3) i1 obtain a where a: "load_volume st (path_images ! idx) = Inr a" "shape a = si"
    by (meson nth_mem)
  from assms(4) assms(1) obtain b where
    b: "load_volume_int st (path_label_maps ! idx) = Inr b" "shape b = sl"
    by (meson nth_mem)
  show ?thesis
    using i1 assms(1) a b
    by (simp add: load_sample_def getitem_def add_axis_front add_axis_front_back
        del: add_axis.simps)
qed

lemma load_samples_shapes:
  assumes "\<forall>i \<in> set indices. i < length path_label_maps"
      and "length path_label_maps \<le> length path_images"
      and "\<forall>p \<in> set path_images. \<exists>a. load_volume st p = Inr a \<and> shape a = si"
      and "\<forall>p \<in> set path_label_maps. \<exists>a. load_volume_int st p = Inr a \<and> shape a = sl"
  shows "\<exists>list_images list_label_maps.
           load_samples st path_images path_label_maps channels indices
             = Inr (list_images, list_label_maps)
           \<and> length list_images = length indices \<and> length list_label_maps = length indices
           \<and> (\<forall>x \<in> set list_images. shape x = 1 # (if channels > 1 then si else si @ [1]))
           \<and> (\<forall>y \<in> set list_label_maps. shape y = 1 # sl @ [1])"
  using assms(1)
proof (induction indices)
  case Nil
  then show ?case by simp
next
  case (Cons idx indices)
  then have "idx < length path_label_maps" by simp
  from load_sample_shapes[OF this assms(2,3,4), of channels] obtain image labels where
    s: "load_sample st path_images path_label_maps channels idx = Inr (image, labels)"
       "shape image = 1 # (if channels > 1 then si else si @ [1])"
       "shape labels = 1 # sl @ [1]"
    by blast
  from Cons obtain list_images list_label_maps where
    r: "load_samples st path_images path_label_maps channels indices
          = Inr (list_images, list_label_maps)"
       "length list_images = length indices" "length list_label_maps = length indices"
       "\<forall>x \<in> set list_images. shape x = 1 # (if channels > 1 then si else si @ [1])"
       "\<forall>y \<in> set list_label_maps. shape y = 1 # sl @ [1]"
    by auto
  show ?case using s r by simp
qed

lemma concatenate0_unit_axes:
  assumes "xs \<noteq> []" and "\<forall>x \<in> set xs. shape x = 1 # t"
  shows "concatenate0 xs = Inr (NDArray (length xs # t) (concat (map flat xs)))"
proof -
  have sum: "sum_list (map (\<lambda>y. hd (shape y)) xs) = length xs"
    using assms(2) by (induction xs) simp_all
  from assms(1) obtain x rest where xs: "xs = x # rest" by (cases xs) auto
  have "shape x \<noteq> []" using assms(2) xs by simp
  moreover have "\<not> list_ex (\<lambda>y. length (shape y) \<noteq> length (shape x)) rest"
    using assms(2) xs by (auto simp: list_ex_iff)
  moreover have "\<not> list_ex (\<lambda>y. tl (shape y) \<noteq> tl (shape x)) rest"
    using assms(2) xs by (auto simp: list_ex_iff)
  moreover have "tl (shape x) = t" using assms(2) xs by simp
  ultimately show ?thesis using xs sum by (simp add: concatenate0_def)
qed

text \<open>
  Claim C4 says that the generator leaves the batch axis out when \<^verbatim>\<open>batchsize\<close> is 1.
  It does not: every sample gets a leading axis of size 1 from \<^verbatim>\<open>add_axis\<close> before it
  is put into its list, and for \<^verbatim>\<open>batchsize\<close> 1 the first element of the list is
  yielded with that axis. On volumes of shape (2, 2) the yielded arrays have shape
  (1, 2, 2, 1).
\<close>

theorem build_model_inputs_single_counterexample:
  "build_model_inputs_next example_storage (\<lambda>k. k)
     [''images/a.nii'', ''images/b.nii''] [''labels/a.nii'', ''labels/b.nii''] 1 1 0
   = Inr ((NDArray [1, 2, 2, 1] [1, 2, 3, 4], NDArray [1, 2, 2, 1] [0, 0, 2, 3]), 1)"
  by (simp add: build_model_inputs_next_def randint_def load_sample_def getitem_def
      expand_dims_def example_storage_def Let_def)

text \<open>
  Claim C4, amended. For every \<^verbatim>\<open>batchsize\<close> from 1 on, on a storage whose images all
  have one shape and whose label maps all have one shape, each round of the generator
  yields an image array and a label array with a leading batch axis of size
  \<^verbatim>\<open>batchsize\<close>: for 1 it is the axis of size 1 that the single sample already has,
  above 1 it comes from concatenating the samples along axis 0. After it come the axes of
  the volume and, for the label map and for an image with one channel, a channel axis of
  size 1.
\<close>

theorem build_model_inputs_batch_axis:
  assumes "1 \<le> bsize"
      and "path_label_maps \<noteq> []" and "length path_label_maps \<le> length path_images"
      and "\<forall>p \<in> set path_images. \<exists>a. load_volume st p = Inr a \<and> shape a = si"
      and "\<forall>p \<in> set path_label_maps. \<exists>a. load_volume_int st p = Inr a \<and> shape a = sl"
  shows "\<exists>images labels.
           build_model_inputs_next st rng path_images path_label_maps bsize channels pos
             = Inr ((images, labels), pos + nat bsize)
           \<and> shape images = nat bsize # (if channels > 1 then si else si @ [1])
           \<and> shape labels = nat bsize # sl @ [1]"
proof -
  from assms(1,2) randint_draw[of "length path_label_maps" bsize rng pos]
  obtain indices where
    d: "randint rng pos (length path_label_maps) bsize = Inr (indices, pos + nat bsize)"
       "length indices = nat bsize" "\<forall>i \<in> set indices. i < length path_label_maps"
    by auto
  from load_samples_shapes[OF d(3) assms(3,4,5), of channels]
  obtain list_images list_label_maps where
    l: "load_samples st path_images path_label_maps channels indices
          = Inr (list_images, list_label_maps)"
       "length list_images = length indices" "length list_label_maps = length indices"
       "\<forall>x \<in> set list_images. shape x = 1 # (if channels > 1 then si else si @ [1])"
       "\<forall>y \<in> set list_label_maps. shape y = 1 # sl @ [1]"
    by blast
  have ne: "list_images \<noteq> []" "list_label_maps \<noteq> []"
    using l(2,3) d(2) assms(1) by auto
  show ?thesis
  proof (cases "bsize > 1")
    case True
    show ?thesis
      using True d(1,2) l(1,2,3)
        concatenate0_unit_axes[OF ne(1) l(4)] concatenate0_unit_axes[OF ne(2) l(5)]
      by (simp add: build_model_inputs_next_def)
  next
    case False
    with assms(1) have b1: "bsize = 1" by simp
    have "shape (list_images ! 0) = 1 # (if channels > 1 then si else si @ [1])"
      using ne(1) l(4) by (metis length_greater_0_conv nth_mem)
    moreover have "shape (list_label_maps ! 0) = 1 # sl @ [1]"
      using ne(2) l(5) by (metis length_greater_0_conv nth_mem)
    ultimately show ?thesis
      using b1 d(1) l(1) ne
      by (simp add: build_model_inputs_next_def getitem_def)
  qed
qed

theorem build_model_inputs_batch_axis_witness:
  "build_model_inputs_next example_storage (\<lambda>k. k)
     [''images/a.nii'', ''images/b.nii''] [''labels/a.nii'', ''labels/b.nii''] 2 1 0
   = Inr ((NDArray [2, 2, 2, 1] [1, 2, 3, 4, 1, 2, 3, 4],
           NDArray [2, 2, 2, 1] [0, 0, 2, 3, 0, 0, 2, 3]), 2)"
  using build_model_inputs_batch_axis[of 2 "[''labels/a.nii'', ''labels/b.nii'']"
      "[''images/a.nii'', ''images/b.nii'']" example_storage "[2, 2]" "[2, 2]" "\<lambda>k. k" 1 0]
  by (simp add: build_model_inputs_next_def randint_def load_sample_def getitem_def
      expand_dims_def concatenate0_def example_storage_def Let_def upt_conv_Cons)

section \<open>Properties of the label lookup table\<close>

lemma index_of_Some:
  "index_of l xs = Some i \<Longrightarrow> i < length xs \<and> xs ! i = l"
proof (induction xs arbitrary: i)
  case Nil
  then show ?case by simp
next
  case (Cons x xs)
  then show ?case by (cases "x = l") auto
qed

lemma index_of_mem:
  "l \<in> set xs \<Longrightarrow> \<exists>i. index_of l xs = Some i"
  by (induction xs) auto

lemma set_canonical_order: "set (canonical_order label_list) = set label_list"
  by (auto simp: canonical_order_def)

lemma forward_then_inverse:
  assumes "forward_lookup lut l = Some i"
  shows "inverse_lookup lut i = Some l"
proof -
  from assms obtain k where k: "index_of l lut = Some k" "i = int k"
    by (auto simp: forward_lookup_def)
  from index_of_Some[OF k(1)] show ?thesis
    using k(2) by (simp add: inverse_lookup_def)
qed

lemma forward_lookup_mem:
  assumes "l \<in> set label_list"
  shows "\<exists>i. forward_lookup (canonical_order label_list) l = Some i"
proof -
  from assms have "l \<in> set (canonical_order label_list)" by (simp add: set_canonical_order)
  from index_of_mem[OF this] show ?thesis by (auto simp: forward_lookup_def)
qed

lemma forward_lookup_zero:
  assumes "0 \<in> set label_list"
  shows "forward_lookup (canonical_order label_list) 0 = Some 0"
  using assms by (simp add: forward_lookup_def canonical_order_def)

lemma those_map_round_trip:
  assumes "\<forall>x \<in> set xs. \<exists>y. f x = Some y \<and> g y = x"
  shows "\<exists>ys. those (map f xs) = Some ys \<and> map g ys = xs"
  using assms
proof (induction xs)
  case Nil
  then show ?case by simp
next
  case (Cons x xs)
  then obtain y where y: "f x = Some y" "g y = x" by auto
  from Cons obtain ys where ys: "those (map f xs) = Some ys" "map g ys = xs" by auto
  show ?case using y ys by simp
qed

text \<open>
  Claim C8. For a label list that the remapping accepts and that has the zero label, the
  lookup table sends 0 to the dense index 0; every label of the list has a dense index,
  from which the inverse lookup gives the label back; and a label volume over the labels
  of the list, encoded by \<^verbatim>\<open>convert_labels\<close> with the lookup table and then decoded by
  \<^verbatim>\<open>convert_labels\<close> with the label list, is the volume it was.
\<close>

theorem label_lookup_round_trip:
  assumes "rearrange_label_list label_list = Inr (new_label_list, lut)"
      and "0 \<in> set label_list"
  shows "forward_lookup lut 0 = Some 0
         \<and> (\<forall>l \<in> set label_list.
               \<exists>i. forward_lookup lut l = Some i \<and> inverse_lookup lut i = Some l)
         \<and> (\<forall>label_map. set label_map \<subseteq> set label_list \<longrightarrow>
               (\<exists>encoded. convert_labels label_map (Lut lut) = Some encoded
                  \<and> convert_labels encoded (Labels label_list) = Some label_map))"
proof -
  from assms(1) have lut: "lut = canonical_order label_list"
    by (auto simp: rearrange_label_list_def split: if_splits)
  have zero: "forward_lookup lut 0 = Some 0"
    unfolding lut using assms(2) by (rule forward_lookup_zero)
  have each: "\<forall>l \<in> set label_list.
                \<exists>i. forward_lookup lut l = Some i \<and> inverse_lookup lut i = Some l"
    unfolding lut using forward_lookup_mem forward_then_inverse by blast
  have volume: "\<exists>encoded. convert_labels label_map (Lut lut) = Some encoded
                  \<and> convert_labels encoded (Labels label_list) = Some label_map"
    if sub: "set label_map \<subseteq> set label_list" for label_map
  proof -
    let ?decode = "\<lambda>i. case inverse_lookup (canonical_order label_list) i of
                       Some l \<Rightarrow> if l \<in> set label_list then l else 0
                     | None \<Rightarrow> 0"
    have "\<forall>x \<in> set label_map. \<exists>y. forward_lookup lut x = Some y \<and> ?decode y = x"
    proof
      fix x assume "x \<in> set label_map"
      with sub have x: "x \<in> set label_list" by auto
      with each obtain i where
        i: "forward_lookup lut x = Some i" "inverse_lookup lut i = Some x" by blast
      show "\<exists>y. forward_lookup lut x = Some y \<and> ?decode y = x"
        using i x by (auto simp: lut)
    qed
    from those_map_round_trip[OF this] show ?thesis by simp
  qed
  from zero each volume show ?thesis by blast
qed

theorem label_lookup_round_trip_witness:
  "rearrange_label_list [3, 0, 2] = Inr ([0, 1, 2], [0, 2, 3])
   \<and> forward_lookup [0, 2, 3] 0 = Some 0
   \<and> convert_labels [3, 0, 2, 2] (Lut [0, 2, 3]) = Some [2, 0, 1, 1]
   \<and> convert_labels [2, 0, 1, 1] (Labels [3, 0, 2]) = Some [3, 0, 2, 2]"
  using label_lookup_round_trip[of "[3, 0, 2]" "[0, 1, 2]" "[0, 2, 3]"]
  by (simp add: rearrange_label_list_def canonical_order_def forward_lookup_def
      inverse_lookup_def upt_conv_Cons)

section \<open>Properties of the augmentation model\<close>

subsection \<open>The unbound names\<close>

lemma lookup_layers: "lookup_global ''layers'' = Inl (NameError ''layers'')"
  by (simp add: lookup_global_def module_globals_def)

lemma lookup_list_inputs: "lookup_global ''list_inputs'' = Inl (NameError ''list_inputs'')"
  by (simp add: lookup_global_def module_globals_def)

lemma deformation_stage_eq:
  "deformation_stage a labels image_input =
     (if deformation_requested a then Inl (NameError ''layers'') else Inr (labels, image_input))"
  by (simp add: deformation_stage_def lookup_layers)

lemma crop_stage_eq:
  "crop_stage crop_shape shape_list labels img =
     (if crop_shape \<noteq> shape_list then Inl (NameError ''layers'') else Inr (labels, img))"
  by (simp add: crop_stage_def lookup_layers)

lemma flip_stage_eq:
  "flip_stage a labels img =
     (if truthy (flipping a)
      then if aff a = None
           then Inl (AssertionError ''aff should not be None if flipping is True'' [])
           else Inl (NameError ''layers'')
      else Inr (labels, img))"
  by (simp add: flip_stage_def lookup_layers)

lemma bias_stage_eq:
  "bias_stage a img =
     (case greater_than_zero (bias_field_std a) of
        Inl e \<Rightarrow> Inl e
      | Inr positive \<Rightarrow> if positive then Inl (NameError ''layers'') else Inr img)"
  by (simp add: bias_stage_def lookup_layers bind_err_def split: sum.splits)

lemma intensity_stage_eq: "intensity_stage img = Inl (NameError ''layers'')"
  by (simp add: intensity_stage_def lookup_layers)

lemma deformation_requested_iff:
  "deformation_requested a \<longleftrightarrow>
     \<not> (scaling_bounds a = PyBool False \<and> rotation_bounds a = PyBool False
        \<and> shearing_bounds a = PyBool False \<and> translation_bounds a = PyBool False
        \<and> nonlin_std a = PyBool False)"
  by (auto simp: deformation_requested_def is_not_False_def)

subsection \<open>Which stages are skipped\<close>

text \<open>
  Claim C3 says that the deformation is skipped when its five parameters are false, 0 or
  \<^verbatim>\<open>None\<close>. For 0 and for \<^verbatim>\<open>None\<close> it is not: the condition of line 177 tests
  \<^verbatim>\<open>is not False\<close>, which holds of both, so the branch is entered, where it stops at
  the unbound name \<^verbatim>\<open>layers\<close>; only the value \<^verbatim>\<open>False\<close> leaves the tensors as they
  are. A bias parameter \<^verbatim>\<open>None\<close> makes the comparison of line 205 fail.
\<close>

theorem deformation_skip_counterexample:
  "deformation_requested
     (example_augmentation_params
        \<lparr> scaling_bounds := PyInt 0, rotation_bounds := PyInt 0, shearing_bounds := PyInt 0,
          translation_bounds := PyInt 0, nonlin_std := PyInt 0 \<rparr>)
   \<and> deformation_stage
       (example_augmentation_params
          \<lparr> scaling_bounds := PyInt 0, rotation_bounds := PyInt 0, shearing_bounds := PyInt 0,
            translation_bounds := PyInt 0, nonlin_std := PyInt 0 \<rparr>)
       (Input ''labels_input'' [100, 100, 100, 1]) (Input ''image_input'' [100, 100, 100, 1])
     = Inl (NameError ''layers'')
   \<and> deformation_stage
       (example_augmentation_params
          \<lparr> scaling_bounds := PyNone, rotation_bounds := PyNone, shearing_bounds := PyNone,
            translation_bounds := PyNone, nonlin_std := PyNone \<rparr>)
       (Input ''labels_input'' [100, 100, 100, 1]) (Input ''image_input'' [100, 100, 100, 1])
     = Inl (NameError ''layers'')
   \<and> deformation_stage
       (example_augmentation_params
          \<lparr> scaling_bounds := PyBool False, rotation_bounds := PyBool False,
            shearing_bounds := PyBool False, translation_bounds := PyBool False,
            nonlin_std := PyBool False \<rparr>)
       (Input ''labels_input'' [100, 100, 100, 1]) (Input ''image_input'' [100, 100, 100, 1])
     = Inr (Input ''labels_input'' [100, 100, 100, 1], Input ''image_input'' [100, 100, 100, 1])
   \<and> bias_stage (example_augmentation_params \<lparr> bias_field_std := PyNone \<rparr>)
       (Input ''image_input'' [100, 100, 100, 1])
     = Inl (TypeError ''> not supported between instances of NoneType and int'')"
  by (simp add: deformation_stage_eq deformation_requested_def is_not_False_def
      bias_stage_eq example_augmentation_params_def)

text \<open>
  Claim C3, amended. The deformation is skipped exactly when its five parameters are all
  the value \<^verbatim>\<open>False\<close>; with any other value, 0 and \<^verbatim>\<open>None\<close> among them, its branch
  is entered. The bias field is skipped when \<^verbatim>\<open>bias_field_std\<close> is a number that is at
  most 0 or is \<^verbatim>\<open>False\<close>, and the flip when \<^verbatim>\<open>flipping\<close> is false, 0 or \<^verbatim>\<open>None\<close>.
  A stage that is skipped hands on the very tensors it received, so their shape and their
  dtype are what they were.
\<close>

theorem stage_skipping:
  "(deformation_stage a labels image_input = Inr (labels, image_input)
      \<longleftrightarrow> scaling_bounds a = PyBool False \<and> rotation_bounds a = PyBool False
          \<and> shearing_bounds a = PyBool False \<and> translation_bounds a = PyBool False
          \<and> nonlin_std a = PyBool False)
   \<and> ((\<exists>i. bias_field_std a = PyInt i \<and> i \<le> 0) \<or> (\<exists>r. bias_field_std a = PyFloat r \<and> r \<le> 0)
        \<or> bias_field_std a = PyBool False
      \<longrightarrow> bias_stage a img = Inr img)
   \<and> (flipping a = PyBool False \<or> flipping a = PyInt 0 \<or> flipping a = PyNone
      \<longrightarrow> flip_stage a labels img = Inr (labels, img))"
proof (intro conjI impI)
  show "deformation_stage a labels image_input = Inr (labels, image_input)
          \<longleftrightarrow> scaling_bounds a = PyBool False \<and> rotation_bounds a = PyBool False
              \<and> shearing_bounds a = PyBool False \<and> translation_bounds a = PyBool False
              \<and> nonlin_std a = PyBool False"
    by (simp add: deformation_stage_eq deformation_requested_iff)
next
  assume "(\<exists>i. bias_field_std a = PyInt i \<and> i \<le> 0) \<or> (\<exists>r. bias_field_std a = PyFloat r \<and> r \<le> 0)
            \<or> bias_field_std a = PyBool False"
  then have "greater_than_zero (bias_field_std a) = Inr False" by auto
  then show "bias_stage a img = Inr img" by (simp add: bias_stage_eq)
next
  assume "flipping a = PyBool False \<or> flipping a = PyInt 0 \<or> flipping a = PyNone"
  then have "\<not> truthy (flipping a)" by auto
  then show "flip_stage a labels img = Inr (labels, img)" by (simp add: flip_stage_eq)
qed

theorem stage_skipping_witness:
  "deformation_stage
     (example_augmentation_params
        \<lparr> flipping := PyInt 0, scaling_bounds := PyBool False, rotation_bounds := PyBool False,
          shearing_bounds := PyBool False, translation_bounds := PyBool False,
          nonlin_std := PyBool False, bias_field_std := PyInt 0 \<rparr>)
     (ConvertLabels (Input ''labels_input'' [100, 100, 100, 1]) (Lut [0, 2, 3]))
     (Input ''image_input'' [100, 100, 100, 1])
   = Inr (ConvertLabels (Input ''labels_input'' [100, 100, 100, 1]) (Lut [0, 2, 3]),
          Input ''image_input'' [100, 100, 100, 1])
   \<and> bias_stage
       (example_augmentation_params
          \<lparr> flipping := PyInt 0, scaling_bounds := PyBool False, rotation_bounds := PyBool False,
            shearing_bounds := PyBool False, translation_bounds := PyBool False,
            nonlin_std := PyBool False, bias_field_std := PyInt 0 \<rparr>)
       (Input ''image_input'' [100, 100, 100, 1])
     = Inr (Input ''image_input'' [100, 100, 100, 1])
   \<and> flip_stage
       (example_augmentation_params
          \<lparr> flipping := PyInt 0, scaling_bounds := PyBool False, rotation_bounds := PyBool False,
            shearing_bounds := PyBool False, translation_bounds := PyBool False,
            nonlin_std := PyBool False, bias_field_std := PyInt 0 \<rparr>)
       (ConvertLabels (Input ''labels_input'' [100, 100, 100, 1]) (Lut [0, 2, 3]))
       (Input ''image_input'' [100, 100, 100, 1])
     = Inr (ConvertLabels (Input ''labels_input'' [100, 100, 100, 1]) (Lut [0, 2, 3]),
            Input ''image_input'' [100, 100, 100, 1])"
  using stage_skipping[of
      "example_augmentation_params
        \<lparr> flipping := PyInt 0, scaling_bounds := PyBool False, rotation_bounds := PyBool False,
          shearing_bounds := PyBool False, translation_bounds := PyBool False,
          nonlin_std := PyBool False, bias_field_std := PyInt 0 \<rparr>"
      "ConvertLabels (Input ''labels_input'' [100, 100, 100, 1]) (Lut [0, 2, 3])"
      "Input ''image_input'' [100, 100, 100, 1]"
      "Input ''image_input'' [100, 100, 100, 1]"]
  by (simp add: example_augmentation_params_def)

subsection \<open>No model is returned\<close>

text \<open>
  Claim C9 describes the model that \<^verbatim>\<open>build_augmentation_model\<close> returns: an image
  output cast to float32, a label output cast to int32, both of the shape that
  \<^verbatim>\<open>get_shapes\<close> resolves. The casts and the crop are written in lines 190 to 217, but
  no call gets there: with the default parameters on a volume of shape (100, 100, 100) the
  function stops at the unbound name \<^verbatim>\<open>layers\<close> and returns no model.
\<close>

theorem build_augmentation_model_example_fails:
  "build_augmentation_model example_augmentation_params = Inl (NameError ''layers'')"
  by (simp add: build_augmentation_model_def example_augmentation_params_def
      reformat_to_list_def get_shapes_def rearrange_label_list_def keras_input_def
      deformation_stage_eq deformation_requested_def is_not_False_def Let_def)

text \<open>
  Claim C10 says that every call raises \<^verbatim>\<open>NameError\<close>. A call with the five deformation
  parameters \<^verbatim>\<open>False\<close>, no crop, and the default values \<^verbatim>\<open>flipping=True\<close> and
  \<^verbatim>\<open>aff=None\<close> reads no unbound name before line 198, and fails there with the
  assertion error on \<^verbatim>\<open>aff\<close>.
\<close>

theorem build_augmentation_model_assertion_counterexample:
  "build_augmentation_model
     (example_augmentation_params
        \<lparr> scaling_bounds := PyBool False, rotation_bounds := PyBool False,
          shearing_bounds := PyBool False, translation_bounds := PyBool False,
          nonlin_std := PyBool False, output_div_by_n := None, aff := None \<rparr>)
   = Inl (AssertionError ''aff should not be None if flipping is True'' [])"
  by (simp add: build_augmentation_model_def example_augmentation_params_def
      reformat_to_list_def get_shapes_def rearrange_label_list_def keras_input_def
      deformation_stage_eq deformation_requested_def is_not_False_def
      crop_stage_eq flip_stage_eq Let_def)

text \<open>
  Claim C10, amended. No call of \<^verbatim>\<open>build_augmentation_model\<close> returns a model, and the
  names \<^verbatim>\<open>get_ras_axes\<close> and \<^verbatim>\<open>list_inputs\<close> are never reached. A call fails with
  \<^verbatim>\<open>ValueError\<close> at the input layers of line 170 when the volume shape or the number of
  channels has a negative entry. On a well-formed call (a volume shape of positive sizes
  with at least one axis, a positive number of channels, a crop shape that is absent or has
  one size per axis, a divisor that is absent or positive, labels that are not negative
  and that the remapping accepts) it raises \<^verbatim>\<open>NameError\<close> for \<^verbatim>\<open>layers\<close> at the first
  stage it enters, at the latest at the intensity augmentation, which is under no
  condition; before that only the assertion on \<^verbatim>\<open>aff\<close> (when the deformation and the
  crop are skipped and \<^verbatim>\<open>flipping\<close> holds) or the comparison of \<^verbatim>\<open>bias_field_std\<close>
  with 0 (when the flip is skipped too) can fail.
\<close>

theorem build_augmentation_model_never_returns:
  "(\<exists>e. build_augmentation_model a = Inl e)
   \<and> build_augmentation_model a \<noteq> Inl (NameError ''get_ras_axes'')
   \<and> build_augmentation_model a \<noteq> Inl (NameError ''list_inputs'')
   \<and> (\<forall>crop_shape printed new_seg_labels lut.
         im_shape a \<noteq> []
         \<and> (\<forall>c. output_shape a = Some c \<longrightarrow> length c = length (im_shape a))
         \<and> (\<forall>n. output_div_by_n a = Some n \<longrightarrow> 0 < n)
         \<and> (\<forall>l \<in> set (segmentation_labels a). 0 \<le> l)
         \<and> get_shapes (im_shape a) (output_shape a) (output_div_by_n a) = Inr (crop_shape, printed)
         \<and> rearrange_label_list (segmentation_labels a) = Inr (new_seg_labels, lut)
         \<longrightarrow> (if \<exists>d \<in> set (im_shape a @ [n_channels a]). d < 0
              then \<exists>msg. build_augmentation_model a = Inl (ValueError msg)
              else (\<forall>d \<in> set (im_shape a @ [n_channels a]). 0 < d) \<longrightarrow>
                   build_augmentation_model a =
                     (if deformation_requested a \<or> crop_shape \<noteq> im_shape a
                      then Inl (NameError ''layers'')
                      else if truthy (flipping a)
                      then if aff a = None
                           then Inl (AssertionError
                                      ''aff should not be None if flipping is True'' [])
                           else Inl (NameError ''layers'')
                      else case greater_than_zero (bias_field_std a) of
                             Inl e \<Rightarrow> Inl e
                           | Inr positive \<Rightarrow> Inl (NameError ''layers''))))"
proof -
  have get_shapes_no_name: "get_shapes s c d \<noteq> Inl (NameError n)" for s c d n
    by (auto simp: get_shapes_def clamp_crop_shape_def Let_def bind_err_def
        split: option.splits sum.splits if_splits)
  have rearrange_no_name: "rearrange_label_list l \<noteq> Inl (NameError n)" for l n
    by (auto simp: rearrange_label_list_def)
  have gtz_no_name: "greater_than_zero v \<noteq> Inl (NameError n)" for v n
    by (cases v) auto
  have labels_input: "keras_input ''labels_input'' (im_shape a @ [1]) =
      (if \<exists>d \<in> set (im_shape a). d < 0
       then Inl (ValueError ''a dimension of the shape is negative'')
       else Inr (Input ''labels_input'' (im_shape a @ [1])))"
    by (auto simp: keras_input_def list_ex_iff)
  have image_input: "keras_input ''image_input'' (im_shape a @ [n_channels a]) =
      (if \<exists>d \<in> set (im_shape a @ [n_channels a]). d < 0
       then Inl (ValueError ''a dimension of the shape is negative'')
       else Inr (Input ''image_input'' (im_shape a @ [n_channels a])))"
    by (auto simp: keras_input_def list_ex_iff)
  have fails: "\<exists>e. build_augmentation_model a = Inl e"
    by (auto simp: build_augmentation_model_def reformat_to_list_def Let_def
        deformation_stage_eq crop_stage_eq flip_stage_eq bias_stage_eq intensity_stage_eq
        bind_err_def split: sum.splits prod.splits)
  have no_ras: "build_augmentation_model a \<noteq> Inl (NameError ''get_ras_axes'')"
    using get_shapes_no_name[of "im_shape a" "output_shape a" "output_div_by_n a"]
      rearrange_no_name[of "segmentation_labels a"]
      gtz_no_name[of "bias_field_std a"]
    by (auto simp: build_augmentation_model_def reformat_to_list_def Let_def
        labels_input image_input
        deformation_stage_eq crop_stage_eq flip_stage_eq bias_stage_eq intensity_stage_eq
        bind_err_def split: sum.splits prod.splits if_splits)
  have no_inputs: "build_augmentation_model a \<noteq> Inl (NameError ''list_inputs'')"
    using get_shapes_no_name[of "im_shape a" "output_shape a" "output_div_by_n a"]
      rearrange_no_name[of "segmentation_labels a"]
      gtz_no_name[of "bias_field_std a"]
    by (auto simp: build_augmentation_model_def reformat_to_list_def Let_def
        labels_input image_input
        deformation_stage_eq crop_stage_eq flip_stage_eq bias_stage_eq intensity_stage_eq
        bind_err_def split: sum.splits prod.splits if_splits)
  have stages: "build_augmentation_model a =
      (if \<exists>d \<in> set (im_shape a @ [n_channels a]). d < 0
       then Inl (ValueError ''a dimension of the shape is negative'')
       else if deformation_requested a \<or> crop_shape \<noteq> im_shape a
       then Inl (NameError ''layers'')
       else if truthy (flipping a)
       then if aff a = None
            then Inl (AssertionError ''aff should not be None if flipping is True'' [])
            else Inl (NameError ''layers'')
       else case greater_than_zero (bias_field_std a) of
              Inl e \<Rightarrow> Inl e
            | Inr positive \<Rightarrow> Inl (NameError ''layers''))"
    if "get_shapes (im_shape a) (output_shape a) (output_div_by_n a) = Inr (crop_shape, printed)"
      and "rearrange_label_list (segmentation_labels a) = Inr (new_seg_labels, lut)"
    for crop_shape printed new_seg_labels lut
    using that
    by (auto simp: build_augmentation_model_def reformat_to_list_def Let_def
        labels_input image_input
        deformation_stage_eq crop_stage_eq flip_stage_eq bias_stage_eq intensity_stage_eq
        split: sum.splits)
  have cond: "if \<exists>d \<in> set (im_shape a @ [n_channels a]). d < 0
              then \<exists>msg. build_augmentation_model a = Inl (ValueError msg)
              else (\<forall>d \<in> set (im_shape a @ [n_channels a]). 0 < d) \<longrightarrow>
                   build_augmentation_model a =
                     (if deformation_requested a \<or> crop_shape \<noteq> im_shape a
                      then Inl (NameError ''layers'')
                      else if truthy (flipping a)
                      then if aff a = None
                           then Inl (AssertionError
                                      ''aff should not be None if flipping is True'' [])
                           else Inl (NameError ''layers'')
                      else case greater_than_zero (bias_field_std a) of
                             Inl e \<Rightarrow> Inl e
                           | Inr positive \<Rightarrow> Inl (NameError ''layers''))"
    if "get_shapes (im_shape a) (output_shape a) (output_div_by_n a) = Inr (crop_shape, printed)"
      and "rearrange_label_list (segmentation_labels a) = Inr (new_seg_labels, lut)"
    for crop_shape printed new_seg_labels lut
  proof (cases "\<exists>d \<in> set (im_shape a @ [n_channels a]). d < 0")
    case True
    then show ?thesis using stages[OF that] by simp
  next
    case False
    then show ?thesis using stages[OF that] by simp
  qed
  from fails no_ras no_inputs cond show ?thesis by blast
qed

theorem build_augmentation_model_never_returns_witness:
  "build_augmentation_model
     (example_augmentation_params
        \<lparr> flipping := PyBool False, scaling_bounds := PyBool False,
          rotation_bounds := PyBool False, shearing_bounds := PyBool False,
          translation_bounds := PyBool False, nonlin_std := PyBool False,
          bias_field_std := PyInt 0, output_div_by_n := None \<rparr>)
   = Inl (NameError ''layers'')"
  using build_augmentation_model_never_returns[of
      "example_augmentation_params
        \<lparr> flipping := PyBool False, scaling_bounds := PyBool False,
          rotation_bounds := PyBool False, shearing_bounds := PyBool False,
          translation_bounds := PyBool False, nonlin_std := PyBool False,
          bias_field_std := PyInt 0, output_div_by_n := None \<rparr>"]
  by (simp add: example_augmentation_params_def get_shapes_def reformat_to_list_def
      rearrange_label_list_def deformation_requested_def is_not_False_def)

section \<open>Properties of the entry point\<close>

lemma then_io_call:
  "then_io (call ev (Inr x)) f = (case f x of (r, tr) \<Rightarrow> (r, ev # tr))"
  by (simp add: then_io_def call_def)

text \<open>
  Claim C6. When neither \<^verbatim>\<open>wl2_epochs\<close> nor \<^verbatim>\<open>dice_epochs\<close> is positive,
  \<^verbatim>\<open>supervised_training\<close> fails with the assertion error that names both values, and
  nothing has happened before: no folder is listed, no file is read, nothing is drawn.
\<close>

theorem supervised_training_no_epochs:
  assumes "wl2_epochs p \<le> 0" and "dice_epochs p \<le> 0"
  shows "supervised_training st p =
           (Inl (AssertionError
                  ''either wl2_epochs or dice_epochs must be positive, had {0} and {1}''
                  [wl2_epochs p, dice_epochs p]), [])"
  using assms by (simp add: supervised_training_def)

theorem supervised_training_no_epochs_witness:
  "supervised_training example_storage
     (example_training_params \<lparr> wl2_epochs := 0, dice_epochs := - 3 \<rparr>)
   = (Inl (AssertionError
            ''either wl2_epochs or dice_epochs must be positive, had {0} and {1}''
            [0, - 3]), [])"
  using supervised_training_no_epochs[of
      "example_training_params \<lparr> wl2_epochs := 0, dice_epochs := - 3 \<rparr>" example_storage]
  by (simp add: example_training_params_def)

text \<open>
  Claim C5. When the two folders are listed with different numbers of files,
  \<^verbatim>\<open>supervised_training\<close> fails with an assertion error: the one on the numbers of
  images and label maps, after the two listings and nothing else, or, when no epoch is
  asked for, the one on the epochs, before anything. Either way no generator has been
  built and no training, where the samples are drawn, has started.
\<close>

theorem supervised_training_count_mismatch:
  assumes "list_images_in_folder st (image_dir p) = Inr path_images"
      and "list_images_in_folder st (labels_dir p) = Inr path_labels"
      and "length path_images \<noteq> length path_labels"
  shows "supervised_training st p =
           (if wl2_epochs p > 0 \<or> dice_epochs p > 0
            then (Inl (AssertionError ''There should be as many images as label maps.'' []),
                  [ListImagesInFolder (image_dir p), ListImagesInFolder (labels_dir p)])
            else (Inl (AssertionError
                        ''either wl2_epochs or dice_epochs must be positive, had {0} and {1}''
                        [wl2_epochs p, dice_epochs p]), []))
         \<and> BuildTrainingGenerator \<notin> set (snd (supervised_training st p))
         \<and> (\<forall>phase epochs. TrainModel phase epochs \<notin> set (snd (supervised_training st p)))"
proof -
  have eq: "supervised_training st p =
           (if wl2_epochs p > 0 \<or> dice_epochs p > 0
            then (Inl (AssertionError ''There should be as many images as label maps.'' []),
                  [ListImagesInFolder (image_dir p), ListImagesInFolder (labels_dir p)])
            else (Inl (AssertionError
                        ''either wl2_epochs or dice_epochs must be positive, had {0} and {1}''
                        [wl2_epochs p, dice_epochs p]), []))"
    using assms by (simp add: supervised_training_def then_io_call)
  show ?thesis unfolding eq by simp
qed

theorem supervised_training_count_mismatch_witness:
  "supervised_training example_storage (example_training_params \<lparr> labels_dir := ''one_label'' \<rparr>)
   = (Inl (AssertionError ''There should be as many images as label maps.'' []),
      [ListImagesInFolder ''images'', ListImagesInFolder ''one_label''])"
  using supervised_training_count_mismatch[of example_storage
      "example_training_params \<lparr> labels_dir := ''one_label'' \<rparr>"
      "[''images/a.nii'', ''images/b.nii'']" "[''one_label/a.nii'']"]
  by (simp add: example_training_params_def example_storage_def)

end
